theory Spec2Isabelle
  imports Complex_Main "HOL-Library.AList"
begin

section \<open>JSON values as Python sees them\<close>

text \<open>
  \<^verbatim>\<open>json.loads\<close> yields \<^verbatim>\<open>None\<close>, \<^verbatim>\<open>bool\<close>, \<^verbatim>\<open>int\<close>, \<^verbatim>\<open>float\<close>, \<^verbatim>\<open>str\<close>,
  \<^verbatim>\<open>list\<close> and \<^verbatim>\<open>dict\<close> objects. A dict keeps its keys in insertion order, so it is an
  association list (looked up with \<open>map_of\<close>); a finite float is the rational it denotes.
  Python's \<^verbatim>\<open>None\<close> is \<open>JNull\<close>.
\<close>

datatype json =
    JNull
  | JBool bool
  | JInt int
  | JFloat rat
  | JStr string
  | JList "json list"
  | JDict "(string \<times> json) list"

text \<open>Truth value of an object in a condition (\<^verbatim>\<open>if n:\<close>, \<^verbatim>\<open>names or [...]\<close>).\<close>

fun truthy :: "json \<Rightarrow> bool" where
  "truthy JNull = False"
| "truthy (JBool b) = b"
| "truthy (JInt n) = (n \<noteq> 0)"
| "truthy (JFloat r) = (r \<noteq> 0)"
| "truthy (JStr s) = (s \<noteq> [])"
| "truthy (JList xs) = (xs \<noteq> [])"
| "truthy (JDict kvs) = (kvs \<noteq> [])"

section \<open>Name extraction (\<^verbatim>\<open>_extract_names\<close>)\<close>

text \<open>
  The dict branch: \<^verbatim>\<open>params["player"].get("name")\<close> is appended when truthy, then the
  \<^verbatim>\<open>"name"\<close> entries of the dicts in \<^verbatim>\<open>params["players"]\<close>.
\<close>

definition player_name :: "(string \<times> json) list \<Rightarrow> json list" where
  "player_name kvs =
     (case map_of kvs ''player'' of
        Some (JDict pl) \<Rightarrow>
          (case map_of pl ''name'' of
             Some n \<Rightarrow> (if truthy n then [n] else [])
           | None \<Rightarrow> [])
      | _ \<Rightarrow> [])"

definition players_entry :: "json \<Rightarrow> json list" where
  "players_entry p =
     (case p of
        JDict d \<Rightarrow> (case map_of d ''name'' of Some n \<Rightarrow> [n] | None \<Rightarrow> [])
      | _ \<Rightarrow> [])"

definition players_names :: "(string \<times> json) list \<Rightarrow> json list" where
  "players_names kvs =
     (case map_of kvs ''players'' of
        Some (JList ps) \<Rightarrow> concat (map players_entry ps)
      | _ \<Rightarrow> [])"

text \<open>
  The list branch: a dict element gives its \<^verbatim>\<open>"name"\<close>, or else the \<^verbatim>\<open>"name"\<close> of its
  \<^verbatim>\<open>"player"\<close> dict; any other element gives nothing.
\<close>

definition list_entry :: "json \<Rightarrow> json list" where
  "list_entry p =
     (case p of
        JDict d \<Rightarrow>
          (case map_of d ''name'' of
             Some n \<Rightarrow> [n]
           | None \<Rightarrow>
               (case map_of d ''player'' of
                  Some (JDict pl) \<Rightarrow> (case map_of pl ''name'' of Some n \<Rightarrow> [n] | None \<Rightarrow> [])
                | _ \<Rightarrow> []))
      | _ \<Rightarrow> [])"

definition collect_names :: "json \<Rightarrow> json list" where
  "collect_names params =
     (case params of
        JDict kvs \<Rightarrow> player_name kvs @ players_names kvs
      | JList ps \<Rightarrow> concat (map list_entry ps)
      | JStr s \<Rightarrow> [JStr s]
      | _ \<Rightarrow> [])"

definition extract_names :: "json \<Rightarrow> json list" where
  "extract_names params =
     (let names = collect_names params in if names \<noteq> [] then names else [JStr ''Unknown''])"

text \<open>
  The notification handlers \<^verbatim>\<open>_on_join\<close> and \<^verbatim>\<open>_on_left\<close> broadcast one notice per
  extracted name; a notice is kept as the event and the name put into its text.
\<close>

datatype notice = Joined json | Left json

definition on_join :: "json \<Rightarrow> notice list" where
  "on_join params = map Joined (extract_names params)"

definition on_left :: "json \<Rightarrow> notice list" where
  "on_left params = map Left (extract_names params)"

section \<open>The client (\<^verbatim>\<open>MSMPClient\<close>)\<close>

text \<open>
  Exceptions are values. \<open>SendError\<close> stands for what \<^verbatim>\<open>ws.send\<close> raises on a closed
  connection. \<open>ConnectionClosed\<close> keeps the three fields of the library's exception
  (\<^verbatim>\<open>rcvd\<close>, \<^verbatim>\<open>sent\<close>, \<^verbatim>\<open>rcvd_then_sent\<close>) as the Python objects they are. A future is an
  object shared between the caller that awaits it and the receive loop that settles it,
  so futures live in a store (\<open>futs\<close>, addresses are naturals, \<open>nfut\<close> is the next fresh
  one) and the pending table holds addresses.
\<close>

datatype exn =
    TimeoutError
  | CancelledError
  | RuntimeError json
  | ConnectionClosed json json json
  | AssertionError
  | SendError
  | TypeError
  | AttributeError
  | JSONDecodeError

datatype fut_state = FPending | FResult json | FException exn | FCancelled

text \<open>
  The fields of the class, then what the code hands to its environment: \<open>futs\<close> and
  \<open>nfut\<close> (the futures created), \<open>sent\<close> (the request objects given to
  \<^verbatim>\<open>ws.send\<close>, oldest first), \<open>spawned\<close> (the handler tasks given to
  \<^verbatim>\<open>asyncio.create_task\<close>, in creation order) and \<open>loops\<close> (how many \<^verbatim>\<open>_run\<close> tasks were
  created). \<open>ws = None\<close> is Python's \<^verbatim>\<open>None\<close>; \<open>ws = Some b\<close> is a connection object whose
  \<^verbatim>\<open>closed\<close> attribute is \<open>b\<close>. The dicts \<open>pending\<close> and \<open>subs\<close> are association lists in
  insertion order. The lock has no field: the section it guards is one step of the model.
\<close>

record 'h client =
  ws :: "bool option"
  rid :: int
  pending :: "(int \<times> nat) list"
  subs :: "(string \<times> 'h list) list"
  running :: bool
  reader_task :: "nat option"
  futs :: "nat \<Rightarrow> fut_state"
  nfut :: nat
  sent :: "json list"
  spawned :: "('h \<times> json) list"
  loops :: nat

definition init_client :: "'h client" where
  "init_client =
     \<lparr> ws = None, rid = 0, pending = [], subs = [], running = False, reader_task = None,
       futs = (\<lambda>_. FPending), nfut = 0, sent = [], spawned = [], loops = 0 \<rparr>"

text \<open>\<^verbatim>\<open>d.get(k, default)\<close> on an insertion-ordered dict.\<close>

definition dict_get :: "('k \<times> 'v) list \<Rightarrow> 'k \<Rightarrow> 'v \<Rightarrow> 'v" where
  "dict_get d k dflt = (case map_of d k of None \<Rightarrow> dflt | Some v \<Rightarrow> v)"

subsection \<open>\<^verbatim>\<open>start\<close>, \<^verbatim>\<open>stop\<close>, \<^verbatim>\<open>on\<close>\<close>

definition start :: "'h client \<Rightarrow> 'h client" where
  "start c =
     (if running c then c
      else c\<lparr> running := True, reader_task := Some (loops c), loops := loops c + 1 \<rparr>)"

text \<open>
  \<^verbatim>\<open>stop\<close> clears the flag and closes the connection if there is one; the receive loop then
  ends by itself (see \<open>recv_loop\<close>), which is what \<^verbatim>\<open>await self._reader_task\<close> waits for.
\<close>

definition stop :: "'h client \<Rightarrow> 'h client" where
  "stop c = c\<lparr> running := False, ws := map_option (\<lambda>_. True) (ws c) \<rparr>"

text \<open>\<^verbatim>\<open>self._subs.setdefault(notif_method, []).append(handler)\<close>\<close>

definition on_sub :: "'h client \<Rightarrow> string \<Rightarrow> 'h \<Rightarrow> 'h client" where
  "on_sub c notif_method handler =
     c\<lparr> subs := AList.update notif_method (dict_get (subs c) notif_method [] @ [handler]) (subs c) \<rparr>"

text \<open>A sequence of \<^verbatim>\<open>on\<close> calls, in order.\<close>

fun register :: "'h client \<Rightarrow> (string \<times> 'h) list \<Rightarrow> 'h client" where
  "register c [] = c"
| "register c ((m, h) # regs) = register (on_sub c m h) regs"

subsection \<open>\<^verbatim>\<open>call\<close>\<close>

text \<open>\<^verbatim>\<open>_wait_ready\<close> polls until \<^verbatim>\<open>self.ws and not self.ws.closed\<close>.\<close>

definition ready :: "'h client \<Rightarrow> bool" where
  "ready c = (ws c = Some False)"

text \<open>The request dict of lines 71 to 73; \<^verbatim>\<open>params is not None\<close> is \<open>params \<noteq> JNull\<close>.\<close>

definition build_req :: "int \<Rightarrow> string \<Rightarrow> json \<Rightarrow> (string \<times> json) list" where
  "build_req r method params =
     (let req = [(''jsonrpc'', JStr ''2.0''), (''id'', JInt r), (''method'', JStr method)]
      in if params \<noteq> JNull then AList.update ''params'' params req else req)"

text \<open>
  The section under the lock (lines 67 to 74). It returns the id, the address of the new
  future, and whether \<^verbatim>\<open>ws.send\<close> raised: on a closed connection it raises after the
  counter and the table have been updated. (\<open>ws = None\<close> cannot follow \<^verbatim>\<open>_wait_ready\<close>, as
  the field is never reset; it would raise \<^verbatim>\<open>AttributeError\<close>.)
\<close>

definition call_locked ::
  "'h client \<Rightarrow> string \<Rightarrow> json \<Rightarrow> 'h client \<times> int \<times> nat \<times> (exn + unit)" where
  "call_locked c method params =
     (let r = rid c + 1;
          fut = nfut c;
          c1 = c\<lparr> rid := r, futs := (futs c)(fut := FPending), nfut := Suc fut,
                  pending := AList.update r fut (pending c) \<rparr>
      in case ws c1 of
           None \<Rightarrow> (c1, r, fut, Inl AttributeError)
         | Some True \<Rightarrow> (c1, r, fut, Inl SendError)
         | Some False \<Rightarrow> (c1\<lparr> sent := sent c1 @ [JDict (build_req r method params)] \<rparr>,
                          r, fut, Inr ()))"

text \<open>
  Line 75, \<^verbatim>\<open>await asyncio.wait_for(fut, timeout=timeout)\<close>, at the moment the caller is
  resumed. A settled future gives its outcome. A future still pending means the deadline
  has passed: \<^verbatim>\<open>wait_for\<close> cancels the future and raises \<^verbatim>\<open>TimeoutError\<close>. The source
  has no code of its own on that path.
\<close>

definition wait_for :: "'h client \<Rightarrow> nat \<Rightarrow> 'h client \<times> (exn + json)" where
  "wait_for c fut =
     (case futs c fut of
        FResult v \<Rightarrow> (c, Inr v)
      | FException e \<Rightarrow> (c, Inl e)
      | FCancelled \<Rightarrow> (c, Inl CancelledError)
      | FPending \<Rightarrow> (c\<lparr> futs := (futs c)(fut := FCancelled) \<rparr>, Inl TimeoutError))"

subsection \<open>The receive loop (\<^verbatim>\<open>_recv_loop\<close>)\<close>

text \<open>
  Looking a JSON value up in a dict with \<^verbatim>\<open>int\<close> keys (the pending table) or with
  \<^verbatim>\<open>str\<close> keys (the subscription table): lists and dicts are unhashable and raise
  \<^verbatim>\<open>TypeError\<close>; \<^verbatim>\<open>True\<close>, \<^verbatim>\<open>False\<close> and integral floats equal (and hash as) ints.
\<close>

fun int_key :: "json \<Rightarrow> exn + int option" where
  "int_key (JInt n) = Inr (Some n)"
| "int_key (JBool b) = Inr (Some (if b then 1 else 0))"
| "int_key (JFloat r) = Inr (if of_int \<lfloor>r\<rfloor> = r then Some \<lfloor>r\<rfloor> else None)"
| "int_key JNull = Inr None"
| "int_key (JStr s) = Inr None"
| "int_key (JList xs) = Inl TypeError"
| "int_key (JDict kvs) = Inl TypeError"

fun str_key :: "json \<Rightarrow> exn + string option" where
  "str_key (JStr s) = Inr (Some s)"
| "str_key (JList xs) = Inl TypeError"
| "str_key (JDict kvs) = Inl TypeError"
| "str_key _ = Inr None"

text \<open>\<^verbatim>\<open>"id" in s\<close> for a string \<open>s\<close> is a substring test.\<close>

fun contains_id :: "string \<Rightarrow> bool" where
  "contains_id (a # b # s) = ((a = CHR ''i'' \<and> b = CHR ''d'') \<or> contains_id (b # s))"
| "contains_id _ = False"

text \<open>
  The response branch (lines 100 to 105), for a message dict \<open>kvs\<close> whose id is \<open>i\<close>.
  \<^verbatim>\<open>pop\<close> on an empty dict returns the default before it hashes the key, so an
  unhashable id raises only when the table has an entry. \<^verbatim>\<open>pop\<close> removes the entry
  whether or not the future is then settled.
\<close>

definition handle_response ::
  "'h client \<Rightarrow> (string \<times> json) list \<Rightarrow> json \<Rightarrow> exn + 'h client" where
  "handle_response c kvs i =
     (if pending c = [] then Inr c
      else
        (case int_key i of
           Inl e \<Rightarrow> Inl e
         | Inr None \<Rightarrow> Inr c
         | Inr (Some r) \<Rightarrow>
             (case map_of (pending c) r of
                None \<Rightarrow> Inr c
              | Some fut \<Rightarrow>
                  (let c1 = c\<lparr> pending := AList.delete r (pending c) \<rparr>
                   in if futs c1 fut = FPending then
                        (case map_of kvs ''error'' of
                           Some err \<Rightarrow>
                             Inr (c1\<lparr> futs := (futs c1)(fut := FException (RuntimeError err)) \<rparr>)
                         | None \<Rightarrow>
                             Inr (c1\<lparr> futs := (futs c1)(fut := FResult (dict_get kvs ''result'' JNull)) \<rparr>))
                      else Inr c1))))"

text \<open>The notification branch (lines 107 to 110).\<close>

definition handle_notification :: "'h client \<Rightarrow> (string \<times> json) list \<Rightarrow> exn + 'h client" where
  "handle_notification c kvs =
     (let meth = dict_get kvs ''method'' (JStr '''');
          params = dict_get kvs ''params'' (JDict [])
      in case str_key meth of
           Inl e \<Rightarrow> Inl e
         | Inr k \<Rightarrow>
             (let cbs = (case k of None \<Rightarrow> [] | Some m \<Rightarrow> dict_get (subs c) m [])
              in Inr (c\<lparr> spawned := spawned c @ map (\<lambda>cb. (cb, params)) cbs \<rparr>)))"

text \<open>
  The body of the loop for one parsed message (lines 99 to 110). A message that is not a
  dict raises at \<^verbatim>\<open>"id" in msg\<close>, at \<^verbatim>\<open>msg["id"]\<close> or at \<^verbatim>\<open>msg.get\<close>. Every raise
  happens before the first change of state.
\<close>

definition handle_msg :: "'h client \<Rightarrow> json \<Rightarrow> exn + 'h client" where
  "handle_msg c msg =
     (case msg of
        JDict kvs \<Rightarrow>
          (case map_of kvs ''id'' of
             Some i \<Rightarrow> handle_response c kvs i
           | None \<Rightarrow> handle_notification c kvs)
      | JList xs \<Rightarrow> Inl (if JStr ''id'' \<in> set xs then TypeError else AttributeError)
      | JStr s \<Rightarrow> Inl (if contains_id s then TypeError else AttributeError)
      | _ \<Rightarrow> Inl TypeError)"

text \<open>A frame read from the socket: text that \<^verbatim>\<open>json.loads\<close> parses, or text it rejects.\<close>

datatype frame = Parsed json | Garbage

definition handle_frame :: "'h client \<Rightarrow> frame \<Rightarrow> exn + 'h client" where
  "handle_frame c f =
     (case f of Garbage \<Rightarrow> Inl JSONDecodeError | Parsed msg \<Rightarrow> handle_msg c msg)"

text \<open>
  The constructor of the library's exception, as the source calls it in line 116. Since
  websockets 10 its parameters are \<^verbatim>\<open>(rcvd, sent, rcvd_then_sent=None)\<close>, no longer a
  code and a reason, and since 13.0 it asserts that \<^verbatim>\<open>rcvd_then_sent\<close> is \<^verbatim>\<open>None\<close>
  exactly when \<^verbatim>\<open>rcvd\<close> or \<^verbatim>\<open>sent\<close> is \<^verbatim>\<open>None\<close>.
\<close>

definition connection_closed :: "json \<Rightarrow> json \<Rightarrow> json \<Rightarrow> exn + exn" where
  "connection_closed rcvd snt rcvd_then_sent =
     (if (rcvd_then_sent = JNull) = (rcvd = JNull \<or> snt = JNull)
      then Inr (ConnectionClosed rcvd snt rcvd_then_sent)
      else Inl AssertionError)"

text \<open>
  The \<^verbatim>\<open>finally\<close> block (lines 114 to 117). The loop over the futures of the table
  constructs \<^verbatim>\<open>ConnectionClosed(1006, "reconnecting")\<close> for each future that is not done;
  when the constructor raises, the loop stops there and \<^verbatim>\<open>self._pending.clear()\<close> is not
  reached. \<open>reject_all\<close> gives the store reached and the exception, if any;
  \<open>finally_block\<close> the state after the block and the exception that leaves it;
  \<open>finally_cleanup\<close> is that state alone.
\<close>

fun reject_all ::
  "nat list \<Rightarrow> (nat \<Rightarrow> fut_state) \<Rightarrow> (nat \<Rightarrow> fut_state) \<times> exn option" where
  "reject_all [] f = (f, None)"
| "reject_all (fut # rest) f =
     (if f fut = FPending then
        (case connection_closed (JInt 1006) (JStr ''reconnecting'') JNull of
           Inl x \<Rightarrow> (f, Some x)
         | Inr ex \<Rightarrow> reject_all rest (f(fut := FException ex)))
      else reject_all rest f)"

definition finally_block :: "'h client \<Rightarrow> 'h client \<times> exn option" where
  "finally_block c =
     (case reject_all (map snd (pending c)) (futs c) of
        (f, Some x) \<Rightarrow> (c\<lparr> futs := f \<rparr>, Some x)
      | (f, None) \<Rightarrow> (c\<lparr> futs := f, pending := [] \<rparr>, None))"

definition finally_cleanup :: "'h client \<Rightarrow> 'h client" where
  "finally_cleanup c = fst (finally_block c)"

text \<open>
  How the iteration over the socket ends: a normal close ends \<^verbatim>\<open>async for\<close>, an abnormal
  one raises the library's \<^verbatim>\<open>ConnectionClosed\<close> (\<open>CloseError\<close> carries its three fields).
  \<open>recv_body\<close> is the \<^verbatim>\<open>try\<close> block: it stops at the first exception, with the state
  reached. \<open>recv_loop\<close> adds \<^verbatim>\<open>except ConnectionClosed: pass\<close> and the \<^verbatim>\<open>finally\<close> block:
  an exception raised inside \<^verbatim>\<open>finally\<close> is the one that leaves the function; otherwise
  any exception of the body other than \<^verbatim>\<open>ConnectionClosed\<close> reaches the caller.
\<close>

datatype ending = CloseOK | CloseError json json json

fun recv_body :: "'h client \<Rightarrow> frame list \<Rightarrow> ending \<Rightarrow> 'h client \<times> (exn + unit)" where
  "recv_body c [] CloseOK = (c, Inr ())"
| "recv_body c [] (CloseError rcvd snt rcvd_then_sent) =
     (c, Inl (ConnectionClosed rcvd snt rcvd_then_sent))"
| "recv_body c (f # fs) e =
     (case handle_frame c f of
        Inl x \<Rightarrow> (c, Inl x)
      | Inr c' \<Rightarrow> recv_body c' fs e)"

definition swallow_closed :: "exn + unit \<Rightarrow> exn + unit" where
  "swallow_closed r =
     (case r of Inl (ConnectionClosed rcvd snt rcvd_then_sent) \<Rightarrow> Inr () | _ \<Rightarrow> r)"

definition recv_loop :: "'h client \<Rightarrow> frame list \<Rightarrow> ending \<Rightarrow> 'h client \<times> (exn + unit)" where
  "recv_loop c fs e =
     (case finally_block (fst (recv_body c fs e)) of
        (c1, Some x) \<Rightarrow> (c1, Inl x)
      | (c1, None) \<Rightarrow> (c1, swallow_closed (snd (recv_body c fs e))))"

subsection \<open>The reconnect loop (\<^verbatim>\<open>_run\<close>)\<close>

text \<open>
  One attempt either fails to connect, or connects, stores the connection in \<^verbatim>\<open>self.ws\<close>
  and runs the receive loop over what the server sends; leaving \<^verbatim>\<open>async with\<close> closes the
  connection. Exceptions are swallowed (followed by a sleep of 3 seconds). The loop runs
  while the flag is set; the list of attempts is what the network does while it runs.
\<close>

datatype attempt = ConnectFails | Session "frame list" ending

definition run_connect :: "'h client \<Rightarrow> 'h client" where
  "run_connect c = c\<lparr> ws := Some False \<rparr>"

definition leave_session :: "'h client \<Rightarrow> 'h client" where
  "leave_session c = c\<lparr> ws := Some True \<rparr>"

definition run_attempt :: "'h client \<Rightarrow> attempt \<Rightarrow> 'h client" where
  "run_attempt c a =
     (case a of
        ConnectFails \<Rightarrow> c
      | Session fs e \<Rightarrow> leave_session (fst (recv_loop (run_connect c) fs e)))"

fun run :: "'h client \<Rightarrow> attempt list \<Rightarrow> 'h client" where
  "run c [] = c"
| "run c (a # as) = (if running c then run (run_attempt c a) as else c)"

subsection \<open>Interleavings\<close>

text \<open>
  The client runs on one event loop, so an execution is a sequence of steps, each a piece
  of code between two suspension points: an API call, the locked section of a \<^verbatim>\<open>call\<close>, the
  resumption of a waiting \<^verbatim>\<open>call\<close>, a connection being established, one frame being
  handled, the receive loop ending. The locked section of a \<^verbatim>\<open>call\<close> runs in whatever
  state the lock is obtained in, which may be later than the moment \<^verbatim>\<open>_wait_ready\<close>
  returned. A frame whose handling raises ends the session: the \<^verbatim>\<open>finally\<close> block runs and
  the connection is closed. \<open>exec\<close> runs a sequence and lists the request ids assigned on
  the way, in the order of the locked sections.
\<close>

datatype 'h event =
    EvStart
  | EvStop
  | EvOn string 'h
  | EvCall string json
  | EvResume nat
  | EvConnect
  | EvFrame frame
  | EvClose ending

definition step :: "'h client \<Rightarrow> 'h event \<Rightarrow> 'h client \<times> int list" where
  "step c ev =
     (case ev of
        EvStart \<Rightarrow> (start c, [])
      | EvStop \<Rightarrow> (stop c, [])
      | EvOn m h \<Rightarrow> (on_sub c m h, [])
      | EvCall m p \<Rightarrow> (case call_locked c m p of (c', r, fut, res) \<Rightarrow> (c', [r]))
      | EvResume fut \<Rightarrow> (fst (wait_for c fut), [])
      | EvConnect \<Rightarrow> (run_connect c, [])
      | EvFrame f \<Rightarrow>
          (case handle_frame c f of
             Inl x \<Rightarrow> (leave_session (finally_cleanup c), [])
           | Inr c' \<Rightarrow> (c', []))
      | EvClose e \<Rightarrow> (leave_session (finally_cleanup c), []))"

fun exec :: "'h client \<Rightarrow> 'h event list \<Rightarrow> 'h client \<times> int list" where
  "exec c [] = (c, [])"
| "exec c (ev # evs) =
     (case step c ev of (c1, ids1) \<Rightarrow>
        (case exec c1 evs of (c2, ids2) \<Rightarrow> (c2, ids1 @ ids2)))"

section \<open>The plugin around the client\<close>

text \<open>
  \<^verbatim>\<open>_startup\<close> starts the client and registers the two handlers of the plugin (loading the
  whitelist file is left out). \<open>run_handler\<close> is what a spawned handler task does when it
  runs.
\<close>

datatype plugin_handler = On_join | On_left

fun run_handler :: "plugin_handler \<Rightarrow> json \<Rightarrow> notice list" where
  "run_handler On_join params = on_join params"
| "run_handler On_left params = on_left params"

definition startup :: "plugin_handler client" where
  "startup =
     register (start init_client)
       [(''minecraft:notification/players/joined'', On_join),
        (''minecraft:notification/players/left'', On_left)]"

text \<open>
  States used as concrete inputs below: connected after startup; then with the two calls
  of the chat commands outstanding; and with the first call timed out.
\<close>

definition connected :: "plugin_handler client" where
  "connected = run_connect startup"

definition players_called :: "plugin_handler client" where
  "players_called = fst (call_locked connected ''minecraft:players'' JNull)"

definition two_calls :: "plugin_handler client" where
  "two_calls =
     fst (call_locked players_called ''minecraft:allowlist/add''
       (JDict [(''add'', JList [JDict [(''name'', JStr ''Bob'')]])]))"

definition timed_out :: "plugin_handler client" where
  "timed_out = fst (wait_for players_called 0)"

text \<open>
  An execution with a reconnect: start, connect, a call, the connection is lost, connect
  again, another call.
\<close>

definition reconnect_events :: "plugin_handler event list" where
  "reconnect_events =
     [EvStart, EvConnect, EvCall ''minecraft:players'' JNull, EvClose (CloseError JNull JNull JNull),
      EvConnect, EvCall ''minecraft:players'' JNull]"

definition reconnect_final :: "plugin_handler client" where
  "reconnect_final = fst (exec init_client reconnect_events)"

text \<open>The connected plugin after its session ended with an error and a new one began.\<close>

definition reconnected :: "plugin_handler client" where
  "reconnected = run_connect (run_attempt connected (Session [] (CloseError JNull JNull JNull)))"

section \<open>Properties of name extraction\<close>

lemma extract_names_str: "extract_names (JStr s) = [JStr s]"
  by (simp add: extract_names_def collect_names_def)

lemma extract_names_scalar:
  "extract_names JNull = [JStr ''Unknown'']"
  "extract_names (JBool b) = [JStr ''Unknown'']"
  "extract_names (JInt n) = [JStr ''Unknown'']"
  "extract_names (JFloat r) = [JStr ''Unknown'']"
  by (simp_all add: extract_names_def collect_names_def)

lemma extract_names_empty:
  "extract_names (JDict []) = [JStr ''Unknown'']"
  "extract_names (JList []) = [JStr ''Unknown'']"
  by (simp_all add: extract_names_def collect_names_def player_name_def players_names_def)

text \<open>
  Claim C6. Name extraction maps the bare string "Carol" to ["Carol"], the list
  [{"name":"Dan"},{"name":"Eve"}] to ["Dan","Eve"] in that order, and the empty dict, the
  empty list, every number and null to ["Unknown"].
\<close>

theorem extract_names_shapes:
  "extract_names (JStr ''Carol'') = [JStr ''Carol'']
   \<and> extract_names (JList [JDict [(''name'', JStr ''Dan'')], JDict [(''name'', JStr ''Eve'')]])
       = [JStr ''Dan'', JStr ''Eve'']
   \<and> extract_names (JDict []) = [JStr ''Unknown'']
   \<and> extract_names (JList []) = [JStr ''Unknown'']
   \<and> extract_names (JInt n) = [JStr ''Unknown'']
   \<and> extract_names (JFloat r) = [JStr ''Unknown'']
   \<and> extract_names (JBool b) = [JStr ''Unknown'']
   \<and> extract_names JNull = [JStr ''Unknown'']"
  by (simp add: extract_names_def collect_names_def player_name_def players_names_def
      list_entry_def)


section \<open>Concrete states\<close>

lemma startup_fields:
  "subs startup =
     [(''minecraft:notification/players/joined'', [On_join]),
      (''minecraft:notification/players/left'', [On_left])]"
  "running startup" "ws startup = None" "rid startup = 0" "pending startup = []"
  "nfut startup = 0" "sent startup = []" "spawned startup = []" "loops startup = 1"
  by (simp_all add: startup_def start_def init_client_def on_sub_def dict_get_def)

lemma connected_fields:
  "subs connected = subs startup" "ws connected = Some False" "rid connected = 0"
  "pending connected = []" "nfut connected = 0" "sent connected = []"
  "spawned connected = []" "running connected"
  by (simp_all add: connected_def run_connect_def startup_fields)

lemma players_called_fields:
  "pending players_called = [(1, 0)]" "rid players_called = 1"
  "futs players_called 0 = FPending" "ws players_called = Some False"
  "nfut players_called = 1" "subs players_called = subs startup"
  "sent players_called =
     [JDict [(''jsonrpc'', JStr ''2.0''), (''id'', JInt 1), (''method'', JStr ''minecraft:players'')]]"
  by (simp_all add: players_called_def call_locked_def Let_def connected_fields build_req_def)

lemma two_calls_fields:
  "pending two_calls = [(1, 0), (2, 1)]" "rid two_calls = 2"
  "futs two_calls 0 = FPending" "futs two_calls (Suc 0) = FPending"
  by (simp_all add: two_calls_def call_locked_def Let_def players_called_fields)

lemma timed_out_fields:
  "pending timed_out = [(1, 0)]" "futs timed_out 0 = FCancelled"
  "snd (wait_for players_called 0) = Inl TimeoutError"
  by (simp_all add: timed_out_def wait_for_def players_called_fields)

section \<open>What each step leaves alone\<close>

lemma connection_closed_line_116:
  "connection_closed (JInt 1006) (JStr ''reconnecting'') JNull = Inl AssertionError"
  by (simp add: connection_closed_def)

lemma reject_all_eval:
  "reject_all as f = (f, if \<exists>a\<in>set as. f a = FPending then Some AssertionError else None)"
  by (induction as arbitrary: f) (auto simp: connection_closed_line_116)

lemma finally_block_eval:
  "finally_block c =
     (if \<exists>a\<in>snd ` set (pending c). futs c a = FPending then (c, Some AssertionError)
      else (c\<lparr> pending := [] \<rparr>, None))"
  by (simp add: finally_block_def reject_all_eval)

lemma finally_cleanup_keeps:
  "subs (finally_cleanup c) = subs c" "rid (finally_cleanup c) = rid c"
  "running (finally_cleanup c) = running c" "futs (finally_cleanup c) = futs c"
  "spawned (finally_cleanup c) = spawned c"
  by (simp_all add: finally_cleanup_def finally_block_eval)

lemma handle_response_keeps:
  "handle_response c kvs i = Inr c' \<Longrightarrow>
     subs c' = subs c \<and> rid c' = rid c \<and> running c' = running c"
  by (auto simp: handle_response_def Let_def split: sum.splits option.splits if_splits)

lemma handle_notification_keeps:
  "handle_notification c kvs = Inr c' \<Longrightarrow>
     subs c' = subs c \<and> rid c' = rid c \<and> running c' = running c
     \<and> pending c' = pending c \<and> futs c' = futs c"
  by (auto simp: handle_notification_def Let_def split: sum.splits)

lemma handle_frame_keeps:
  "handle_frame c f = Inr c' \<Longrightarrow> subs c' = subs c \<and> rid c' = rid c \<and> running c' = running c"
  by (auto simp: handle_frame_def handle_msg_def split: frame.splits json.splits option.splits
      dest: handle_response_keeps handle_notification_keeps)

lemma recv_body_keeps:
  "subs (fst (recv_body c fs e)) = subs c \<and> rid (fst (recv_body c fs e)) = rid c
   \<and> running (fst (recv_body c fs e)) = running c"
proof (induction c fs e rule: recv_body.induct)
  case (3 c f fs e)
  then show ?case
    by (cases "handle_frame c f") (auto dest: handle_frame_keeps)
qed simp_all

lemma recv_loop_keeps:
  "subs (fst (recv_loop c fs e)) = subs c \<and> rid (fst (recv_loop c fs e)) = rid c
   \<and> running (fst (recv_loop c fs e)) = running c"
proof -
  have "fst (recv_loop c fs e) = finally_cleanup (fst (recv_body c fs e))"
    by (simp add: recv_loop_def finally_cleanup_def split: prod.splits option.splits)
  then show ?thesis by (simp add: finally_cleanup_keeps recv_body_keeps)
qed

lemma run_attempt_keeps:
  "subs (run_attempt c a) = subs c \<and> rid (run_attempt c a) = rid c
   \<and> running (run_attempt c a) = running c"
  by (cases a) (simp_all add: run_attempt_def leave_session_def recv_loop_keeps run_connect_def)

lemma run_keeps: "subs (run c as) = subs c \<and> rid (run c as) = rid c"
  by (induction c as rule: run.induct) (simp_all add: run_attempt_keeps)

lemma wait_for_keeps_pending: "pending (fst (wait_for c fut)) = pending c"
  by (simp add: wait_for_def split: fut_state.splits)

lemma response_on_empty_table:
  "pending c = [] \<Longrightarrow> handle_msg c (JDict ((''id'', i) # kvs)) = Inr c"
  by (simp add: handle_msg_def handle_response_def)

lemma unhashable_id_raises:
  "pending c \<noteq> [] \<Longrightarrow> handle_msg c (JDict ((''id'', JList xs) # kvs)) = Inl TypeError"
  by (simp add: handle_msg_def handle_response_def)

section \<open>Request ids\<close>

lemma step_rid:
  "step c ev = (c', ids) \<Longrightarrow>
     rid c \<le> rid c' \<and> sorted_wrt (<) ids \<and> (\<forall>i\<in>set ids. rid c < i \<and> i \<le> rid c')"
  by (cases ev)
     (auto simp: step_def start_def stop_def on_sub_def call_locked_def Let_def wait_for_def
        run_connect_def leave_session_def finally_cleanup_keeps
        split: option.splits bool.splits fut_state.splits sum.splits prod.splits
        dest: handle_frame_keeps)

lemma exec_rid:
  "exec c evs = (c', ids) \<Longrightarrow>
     rid c \<le> rid c' \<and> sorted_wrt (<) ids \<and> (\<forall>i\<in>set ids. rid c < i \<and> i \<le> rid c')"
proof (induction evs arbitrary: c c' ids)
  case Nil
  then show ?case by simp
next
  case (Cons ev evs)
  obtain c1 ids1 where s: "step c ev = (c1, ids1)" by (cases "step c ev")
  obtain c2 ids2 where e: "exec c1 evs = (c2, ids2)" by (cases "exec c1 evs")
  from Cons.prems s e have eq: "c' = c2" "ids = ids1 @ ids2" by simp_all
  note a = step_rid[OF s] and b = Cons.IH[OF e]
  show ?case unfolding eq
    using a b by (fastforce simp: sorted_wrt_append)
qed

text \<open>
  Claim C2. Over any execution of a client (any interleaving of \<^verbatim>\<open>start\<close>, \<^verbatim>\<open>stop\<close>,
  \<^verbatim>\<open>on\<close>, calls, timeouts, connections, frames and connection losses), the request ids
  assigned are strictly increasing in the order of the locked sections, hence pairwise
  distinct, and lie above the counter the execution started with; the counter never
  decreases, and connecting, losing the connection and the whole reconnect loop leave it
  unchanged.
\<close>

theorem request_ids_increasing:
  "exec c evs = (c', ids) \<Longrightarrow>
     sorted_wrt (<) ids \<and> distinct ids \<and> (\<forall>i\<in>set ids. rid c < i \<and> i \<le> rid c')
     \<and> rid c \<le> rid c'
     \<and> rid (fst (step c' EvConnect)) = rid c'
     \<and> rid (fst (step c' (EvClose e))) = rid c'
     \<and> rid (run c' as) = rid c'"
proof -
  assume ex: "exec c evs = (c', ids)"
  note r = exec_rid[OF ex]
  have d: "distinct ids" using r by (simp add: strict_sorted_iff)
  have s1: "rid (fst (step c' EvConnect)) = rid c'" by (simp add: step_def run_connect_def)
  have s2: "rid (fst (step c' (EvClose e))) = rid c'"
    by (simp add: step_def leave_session_def finally_cleanup_keeps)
  show ?thesis using r d s1 s2 run_keeps by blast
qed

lemma reconnect_trace:
  "exec init_client reconnect_events = (reconnect_final, [1, 2])"
proof -
  have "snd (exec (init_client :: plugin_handler client) reconnect_events) = [1, 2]"
    by (simp add: reconnect_events_def step_def init_client_def start_def run_connect_def
        call_locked_def Let_def leave_session_def finally_cleanup_def finally_block_eval)
  then show ?thesis
    unfolding reconnect_final_def by (metis prod.collapse)
qed

lemma reconnect_final_rid: "rid reconnect_final = 2"
  by (simp add: reconnect_final_def reconnect_events_def step_def init_client_def start_def
      run_connect_def call_locked_def Let_def leave_session_def finally_cleanup_def finally_block_eval)

theorem request_ids_increasing_witness:
  "exec init_client reconnect_events = (reconnect_final, [1, 2])
   \<and> sorted_wrt (<) [1, 2 :: int] \<and> distinct [1, 2 :: int]
   \<and> rid (init_client :: plugin_handler client) = 0 \<and> rid reconnect_final = 2"
  using request_ids_increasing [OF reconnect_trace] reconnect_trace reconnect_final_rid
  by (simp add: init_client_def)

section \<open>Timeout of a call\<close>

text \<open>
  Claim C1, evaluated on the code. The plugin has started and is connected, a
  \<^verbatim>\<open>call("minecraft:players")\<close> gets id 1 and future 0, its request is sent, and no
  response arrives before the deadline. The call raises \<^verbatim>\<open>TimeoutError\<close> and the future
  is cancelled, but the entry for id 1 is still in the pending table afterwards: the
  code never removes it on this path.
\<close>

theorem call_timeout_leaves_entry:
  "call_locked connected ''minecraft:players'' JNull = (players_called, 1, 0, Inr ())
   \<and> wait_for players_called 0 = (timed_out, Inl TimeoutError)
   \<and> pending timed_out = [(1, 0)]
   \<and> map_of (pending timed_out) 1 = Some 0
   \<and> futs timed_out 0 = FCancelled"
proof -
  have "snd (call_locked connected ''minecraft:players'' JNull) = (1, 0, Inr ())"
    by (simp add: call_locked_def Let_def connected_fields)
  then have a: "call_locked connected ''minecraft:players'' JNull = (players_called, 1, 0, Inr ())"
    unfolding players_called_def by (metis prod.collapse)
  have b: "wait_for players_called 0 = (timed_out, Inl TimeoutError)"
    unfolding timed_out_def using timed_out_fields(3) by (metis prod.collapse)
  show ?thesis using a b by (simp add: timed_out_fields)
qed

section \<open>Connection loss\<close>

text \<open>
  Claim C3, evaluated on the code. The plugin is connected and two calls are outstanding
  (ids 1 and 2, neither future settled) when the connection drops, with an error or by a
  normal close. The \<^verbatim>\<open>finally\<close> block reaches the first future and constructs \<^verbatim>\<open>ConnectionClosed(1006, "reconnecting")\<close>,
  the constructor raises \<^verbatim>\<open>AssertionError\<close>, and the block is left: no future is rejected,
  the table is not cleared, and both entries are still there, unsettled, when the
  reconnect loop has connected again.
\<close>

theorem connection_loss_aborts_cleanup:
  "pending two_calls = [(1, 0), (2, 1)]
   \<and> futs two_calls 0 = FPending \<and> futs two_calls 1 = FPending
   \<and> recv_loop two_calls [] (CloseError JNull JNull JNull) = (two_calls, Inl AssertionError)
   \<and> recv_loop two_calls [] CloseOK = (two_calls, Inl AssertionError)
   \<and> pending (run_connect (run_attempt two_calls (Session [] (CloseError JNull JNull JNull))))
       = [(1, 0), (2, 1)]
   \<and> futs (run_connect (run_attempt two_calls (Session [] (CloseError JNull JNull JNull)))) 0
       = FPending
   \<and> futs (run_connect (run_attempt two_calls (Session [] (CloseError JNull JNull JNull)))) 1
       = FPending"
proof -
  have c: "ws two_calls = Some False"
    by (simp add: two_calls_def call_locked_def Let_def players_called_fields)
  have "run_connect two_calls = two_calls"
    using c by (simp add: run_connect_def)
  moreover have "finally_block two_calls = (two_calls, Some AssertionError)"
    by (simp add: finally_block_eval two_calls_fields)
  ultimately show ?thesis
    by (simp add: two_calls_fields recv_loop_def run_attempt_def leave_session_def
        run_connect_def)
qed

section \<open>Responses\<close>

text \<open>
  Claim C4 does not hold for an entry whose call has already timed out: the entry is
  still in the table, its future is cancelled, and the response with its id removes the
  entry without settling anything. Here the call with id 1 has timed out and the response
  \<^verbatim>\<open>{"id": 1, "result": 5}\<close> arrives.
\<close>

theorem response_to_timed_out_call:
  "map_of (pending timed_out) 1 = Some 0
   \<and> handle_msg timed_out (JDict [(''id'', JInt 1), (''result'', JInt 5)])
       = Inr (timed_out\<lparr> pending := [] \<rparr>)
   \<and> futs (timed_out\<lparr> pending := [] \<rparr>) 0 = FCancelled
   \<and> futs (timed_out\<lparr> pending := [] \<rparr>) 0 \<noteq> FResult (JInt 5)"
  by (simp add: handle_msg_def handle_response_def Let_def timed_out_fields)

text \<open>
  Claim C4 as amended. For a message dict whose id matches an entry of the pending table
  (as a key of a Python dict): handling it raises nothing and removes the entry. If the
  entry's future is not yet settled, it is rejected with \<^verbatim>\<open>RuntimeError\<close> carrying the
  value of the \<^verbatim>\<open>error\<close> field as it is when the message has one, and otherwise resolved
  with the value of the \<^verbatim>\<open>result\<close> field, \<^verbatim>\<open>None\<close> when that is absent; this is what the
  waiting call then raises or returns. If the future is already settled, it is left as
  it is.
\<close>

theorem response_settles_pending_call:
  "map_of kvs ''id'' = Some i \<Longrightarrow> int_key i = Inr (Some r) \<Longrightarrow>
   map_of (pending c) r = Some fut \<Longrightarrow>
   \<exists>c'. handle_msg c (JDict kvs) = Inr c'
     \<and> map_of (pending c') r = None
     \<and> futs c' fut =
         (if futs c fut = FPending then
            (case map_of kvs ''error'' of
               Some err \<Rightarrow> FException (RuntimeError err)
             | None \<Rightarrow> FResult (dict_get kvs ''result'' JNull))
          else futs c fut)
     \<and> (if futs c fut = FPending then
           snd (wait_for c' fut) =
             (case map_of kvs ''error'' of
                Some err \<Rightarrow> Inl (RuntimeError err)
              | None \<Rightarrow> Inr (dict_get kvs ''result'' JNull))
         else c' = c\<lparr> pending := AList.delete r (pending c) \<rparr>)"
  by (auto simp: handle_msg_def handle_response_def Let_def delete_conv' wait_for_def
      split: option.splits)

theorem response_settles_pending_call_witness:
  "map_of [(''id'', JInt 1), (''error'', JDict [(''code'', JInt (- 1)), (''message'', JStr ''bad'')])]
     ''id'' = Some (JInt 1)
   \<and> int_key (JInt 1) = Inr (Some 1)
   \<and> map_of (pending two_calls) 1 = Some 0
   \<and> futs two_calls 0 = FPending
   \<and> (\<exists>c'. handle_msg two_calls
          (JDict [(''id'', JInt 1),
                  (''error'', JDict [(''code'', JInt (- 1)), (''message'', JStr ''bad'')])])
          = Inr c'
        \<and> map_of (pending c') 1 = None
        \<and> futs c' 0
            = FException (RuntimeError (JDict [(''code'', JInt (- 1)), (''message'', JStr ''bad'')]))
        \<and> snd (wait_for c' 0)
            = Inl (RuntimeError (JDict [(''code'', JInt (- 1)), (''message'', JStr ''bad'')])))"
  using response_settles_pending_call
    [of "[(''id'', JInt 1), (''error'', JDict [(''code'', JInt (- 1)), (''message'', JStr ''bad'')])]"
        "JInt 1" 1 two_calls 0]
  by (simp add: two_calls_fields)

section \<open>Notifications\<close>

lemma on_sub_get:
  "dict_get (subs (on_sub c m h)) m' [] =
     (if m' = m then dict_get (subs c) m [] @ [h] else dict_get (subs c) m' [])"
  by (simp add: on_sub_def dict_get_def update_conv')

lemma register_get:
  "dict_get (subs (register c regs)) m [] =
     dict_get (subs c) m [] @ map snd (filter (\<lambda>(m', h). m' = m) regs)"
  by (induction c regs rule: register.induct) (simp_all add: on_sub_get)

lemma notification_dispatch:
  "map_of kvs ''id'' = None \<Longrightarrow> dict_get kvs ''method'' (JStr '''') = JStr m \<Longrightarrow>
   handle_msg c (JDict kvs) =
     Inr (c\<lparr> spawned := spawned c @
               map (\<lambda>cb. (cb, dict_get kvs ''params'' (JDict []))) (dict_get (subs c) m []) \<rparr>)"
  by (simp add: handle_msg_def handle_notification_def Let_def)

text \<open>
  Claim C5. Let handlers be registered by a sequence of \<^verbatim>\<open>on\<close> calls, and let a message
  without an id arrive whose method is \<open>m\<close>. Handling it raises nothing and creates
  exactly one task per registration for \<open>m\<close>, each with the params of the notification:
  first the handlers \<open>m\<close> had before, then the newly registered ones in the order of their
  registration. Registrations for other methods create no task, and when \<open>m\<close> has no
  handler the state is left as it was.
\<close>

theorem notification_reaches_handlers:
  "map_of kvs ''id'' = None \<Longrightarrow> dict_get kvs ''method'' (JStr '''') = JStr m \<Longrightarrow>
   handle_msg (register c regs) (JDict kvs) =
     Inr ((register c regs)\<lparr> spawned := spawned (register c regs) @
            map (\<lambda>cb. (cb, dict_get kvs ''params'' (JDict [])))
              (dict_get (subs c) m [] @ map snd (filter (\<lambda>(m', h). m' = m) regs)) \<rparr>)
   \<and> (dict_get (subs (register c regs)) m [] = [] \<longrightarrow>
        handle_msg (register c regs) (JDict kvs) = Inr (register c regs))"
  by (simp add: notification_dispatch register_get)

theorem notification_reaches_handlers_witness:
  "map_of [(''method'', JStr ''joined''), (''params'', JStr ''Carol'')] ''id'' = None
   \<and> dict_get [(''method'', JStr ''joined''), (''params'', JStr ''Carol'')] ''method'' (JStr '''')
       = JStr ''joined''
   \<and> handle_msg
        (register (init_client :: string client)
           [(''joined'', ''first''), (''left'', ''other''), (''joined'', ''second'')])
        (JDict [(''method'', JStr ''joined''), (''params'', JStr ''Carol'')])
       = Inr ((register (init_client :: string client)
                [(''joined'', ''first''), (''left'', ''other''), (''joined'', ''second'')])
              \<lparr> spawned := [(''first'', JStr ''Carol''), (''second'', JStr ''Carol'')] \<rparr>)"
  using notification_reaches_handlers
    [of "[(''method'', JStr ''joined''), (''params'', JStr ''Carol'')]" "''joined''"
        "init_client :: string client"
        "[(''joined'', ''first''), (''left'', ''other''), (''joined'', ''second'')]"]
  by (simp add: dict_get_def init_client_def on_sub_def)

text \<open>
  Claim C10. A message without an id and without a \<^verbatim>\<open>params\<close> key, whose method is
  \<open>m\<close>, is handled without an exception: every handler registered for \<open>m\<close> gets a task
  with the empty dict as params. On the empty dict name extraction gives ["Unknown"], so
  the join and leave handlers of the plugin announce the name "Unknown".
\<close>

theorem notification_without_params:
  "map_of kvs ''id'' = None \<Longrightarrow> map_of kvs ''params'' = None \<Longrightarrow>
   dict_get kvs ''method'' (JStr '''') = JStr m \<Longrightarrow>
   handle_frame c (Parsed (JDict kvs)) =
     Inr (c\<lparr> spawned := spawned c @ map (\<lambda>cb. (cb, JDict [])) (dict_get (subs c) m []) \<rparr>)
   \<and> snd (recv_body c [Parsed (JDict kvs)] CloseOK) = Inr ()
   \<and> extract_names (JDict []) = [JStr ''Unknown'']
   \<and> run_handler On_join (JDict []) = [Joined (JStr ''Unknown'')]
   \<and> run_handler On_left (JDict []) = [Left (JStr ''Unknown'')]"
  by (simp add: handle_frame_def notification_dispatch dict_get_def on_join_def on_left_def
      extract_names_empty)

theorem notification_without_params_witness:
  "map_of [(''method'', JStr ''minecraft:notification/players/joined'')] ''id'' = None
   \<and> map_of [(''method'', JStr ''minecraft:notification/players/joined'')] ''params'' = None
   \<and> handle_frame connected
        (Parsed (JDict [(''method'', JStr ''minecraft:notification/players/joined'')]))
       = Inr (connected\<lparr> spawned := [(On_join, JDict [])] \<rparr>)
   \<and> run_handler On_join (JDict []) = [Joined (JStr ''Unknown'')]"
  using notification_without_params
    [of "[(''method'', JStr ''minecraft:notification/players/joined'')]"
        "''minecraft:notification/players/joined''" connected]
  by (simp add: dict_get_def connected_fields startup_fields)

section \<open>Outgoing requests\<close>

text \<open>
  Claim C7. A call on a ready client (connected, not closed) sends exactly one request
  object: the keys \<^verbatim>\<open>jsonrpc\<close> (the string "2.0"), \<^verbatim>\<open>id\<close> (the id assigned, the counter
  plus one) and \<^verbatim>\<open>method\<close>, followed by the key \<^verbatim>\<open>params\<close> with the argument as its
  value if and only if the argument is not \<^verbatim>\<open>None\<close>; otherwise the object has no
  \<^verbatim>\<open>params\<close> key at all.
\<close>

theorem request_object_shape:
  "ready c \<Longrightarrow> call_locked c method params = (c', r, fut, res) \<Longrightarrow>
     res = Inr () \<and> r = rid c + 1
     \<and> sent c' = sent c @ [JDict (build_req r method params)]
     \<and> build_req r method params =
         [(''jsonrpc'', JStr ''2.0''), (''id'', JInt r), (''method'', JStr method)]
         @ (if params = JNull then [] else [(''params'', params)])
     \<and> (''params'' \<in> fst ` set (build_req r method params)) = (params \<noteq> JNull)
     \<and> map_of (build_req r method params) ''params''
         = (if params = JNull then None else Some params)"
  by (auto simp: ready_def call_locked_def Let_def build_req_def)

theorem request_object_shape_witness:
  "ready connected
   \<and> call_locked connected ''minecraft:players'' JNull = (players_called, 1, 0, Inr ())
   \<and> sent players_called =
       [JDict [(''jsonrpc'', JStr ''2.0''), (''id'', JInt 1), (''method'', JStr ''minecraft:players'')]]
   \<and> build_req 1 ''minecraft:players'' JNull =
       [(''jsonrpc'', JStr ''2.0''), (''id'', JInt 1), (''method'', JStr ''minecraft:players'')]
   \<and> map_of (build_req 1 ''minecraft:players'' JNull) ''params'' = None"
proof -
  have r: "ready connected" by (simp add: ready_def connected_fields)
  have "snd (call_locked connected ''minecraft:players'' JNull) = (1, 0, Inr ())"
    by (simp add: call_locked_def Let_def connected_fields)
  then have a: "call_locked connected ''minecraft:players'' JNull = (players_called, 1, 0, Inr ())"
    unfolding players_called_def by (metis prod.collapse)
  show ?thesis
    using request_object_shape [OF r a] r a by (simp add: connected_fields)
qed

section \<open>Subscriptions across reconnects\<close>

text \<open>
  Claim C8. The cleanup on connection loss changes nothing but the pending table and the
  futures it rejects; the receive loop, a whole session of the reconnect loop, connecting
  again, and any run of the reconnect loop leave the subscription table as it was. So a
  notification for \<open>m\<close> handled after a session has ended and a new connection is up
  creates a task for every handler that was registered for \<open>m\<close> before the loss.
\<close>

theorem subscriptions_survive_reconnect:
  "map_of kvs ''id'' = None \<Longrightarrow> dict_get kvs ''method'' (JStr '''') = JStr m \<Longrightarrow>
   c' = run_connect (run_attempt c (Session fs e)) \<Longrightarrow>
     (finally_cleanup c)\<lparr> pending := pending c, futs := futs c \<rparr> = c
     \<and> subs (finally_cleanup c) = subs c
     \<and> subs (fst (recv_loop c fs e)) = subs c
     \<and> subs c' = subs c
     \<and> subs (run c as) = subs c
     \<and> handle_msg c' (JDict kvs) =
         Inr (c'\<lparr> spawned := spawned c' @
               map (\<lambda>cb. (cb, dict_get kvs ''params'' (JDict []))) (dict_get (subs c) m []) \<rparr>)"
  by (simp add: notification_dispatch run_connect_def run_attempt_keeps recv_loop_keeps
      run_keeps finally_cleanup_keeps) (simp add: finally_cleanup_def finally_block_eval)

theorem subscriptions_survive_reconnect_witness:
  "map_of [(''method'', JStr ''minecraft:notification/players/joined''),
           (''params'', JDict [(''player'', JDict [(''name'', JStr ''Bob'')])])] ''id'' = None
   \<and> subs reconnected = subs connected
   \<and> subs reconnected =
       [(''minecraft:notification/players/joined'', [On_join]),
        (''minecraft:notification/players/left'', [On_left])]
   \<and> handle_msg reconnected
        (JDict [(''method'', JStr ''minecraft:notification/players/joined''),
                (''params'', JDict [(''player'', JDict [(''name'', JStr ''Bob'')])])])
       = Inr (reconnected\<lparr> spawned := spawned reconnected @
                [(On_join, JDict [(''player'', JDict [(''name'', JStr ''Bob'')])])] \<rparr>)
   \<and> run_handler On_join (JDict [(''player'', JDict [(''name'', JStr ''Bob'')])])
       = [Joined (JStr ''Bob'')]"
  using subscriptions_survive_reconnect
    [of "[(''method'', JStr ''minecraft:notification/players/joined''),
          (''params'', JDict [(''player'', JDict [(''name'', JStr ''Bob'')])])]"
        "''minecraft:notification/players/joined''" reconnected connected "[]"
        "CloseError JNull JNull JNull"]
  by (simp add: reconnected_def dict_get_def connected_fields startup_fields on_join_def
      extract_names_def collect_names_def player_name_def players_names_def)

section \<open>Starting twice\<close>

text \<open>
  Claim C9. On a running client \<^verbatim>\<open>start\<close> changes nothing, so no second background
  loop is created; and two calls of \<^verbatim>\<open>start\<close> in a row leave the state one call leaves.
\<close>

theorem start_idempotent:
  "(running c \<longrightarrow> start c = c \<and> loops (start c) = loops c) \<and> start (start c) = start c"
  by (simp add: start_def)

theorem start_idempotent_witness:
  "running startup \<and> start startup = startup \<and> loops (start startup) = 1
   \<and> start (start (init_client :: plugin_handler client)) = start init_client
   \<and> loops (start (start (init_client :: plugin_handler client))) = 1"
  using start_idempotent [of startup] start_idempotent [of "init_client :: plugin_handler client"]
  by (simp add: startup_fields) (simp add: start_def init_client_def)

end
